theory Spec2Isabelle
  imports Main
begin

section \<open>Data model of \<^verbatim>\<open>src/iris/mutations/message.js\<close>\<close>

text \<open>
  The file exports two GraphQL mutations, \<^verbatim>\<open>addMessage\<close> and \<^verbatim>\<open>deleteMessage\<close>.
  Both are \<^verbatim>\<open>async\<close> functions that orchestrate imported collaborators (the message
  store, the thread store, the participant registry, the permission lookups, the upload
  service, the language detector). The collaborators are not part of the file; they are
  taken as parameters (the record \<open>env\<close> below), so every theorem holds for every
  behaviour of theirs.
\<close>

subsection \<open>Errors and outcomes\<close>

text \<open>
  A JavaScript error value. \<open>UserError\<close> is the class imported from
  \<^verbatim>\<open>../utils/UserError\<close>; \<open>TypeError\<close> is what a property read on \<^verbatim>\<open>null\<close> or
  \<^verbatim>\<open>undefined\<close> raises (it carries the name of the property read); \<open>SyntaxError\<close> is what
  \<^verbatim>\<open>JSON.parse\<close> raises; \<open>Error\<close> is any other error of a collaborator.
\<close>

datatype jsError =
    UserError string
  | TypeError string
  | SyntaxError string
  | Error string

text \<open>The \<^verbatim>\<open>.message\<close> property of an error.\<close>

fun message_of :: "jsError \<Rightarrow> string" where
  "message_of (UserError m) = m"
| "message_of (TypeError p) = ''Cannot read property '' @ p @ '' of null''"
| "message_of (SyntaxError m) = m"
| "message_of (Error m) = m"

text \<open>
  What the promise of an \<^verbatim>\<open>async\<close> mutation settles to: it resolves to a value
  (\<open>Returned\<close>), it resolves to an error object that the code built with \<^verbatim>\<open>new\<close> and
  returned (\<open>ReturnedError\<close>), or it rejects because an error was thrown and not caught
  (\<open>Thrown\<close>).
\<close>

datatype 'a outcome =
    Returned 'a
  | ReturnedError jsError
  | Thrown jsError

subsection \<open>Messages, threads, permissions\<close>

text \<open>
  The upload descriptor \<^verbatim>\<open>message.file\<close> (\<open>file\<close> is a keyword of Isabelle, hence the
  names \<open>fileDescriptor\<close> and \<open>file_message\<close>). The code reads \<^verbatim>\<open>name\<close>, \<^verbatim>\<open>size\<close> and
  \<^verbatim>\<open>type\<close>; \<open>path\<close> stands for whatever else the descriptor of the transport carries
  (it is absent from the object the code rebuilds).
\<close>

record fileDescriptor =
  name :: string
  size_file :: nat
  type_file :: string
  path :: "string option"

record content =
  body :: string

text \<open>
  \<^verbatim>\<open>threadType\<close> and \<^verbatim>\<open>messageType\<close> are strings in the source and are compared with
  string literals there; they stay strings here.
\<close>

record message =
  id_message :: string
  threadId :: string
  threadType :: string
  senderId :: string
  messageType :: string
  content :: content
  file_message :: "fileDescriptor option"

record thread =
  communityId :: "string option"
  channelId :: "string option"
  watercooler :: bool

record permissions =
  reputation :: int
  isModerator :: bool
  isOwner :: bool

record user =
  id_user :: string

text \<open>
  The object attached as \<^verbatim>\<open>contextPermissions\<close>. The key \<^verbatim>\<open>communityId\<close> exists only in
  the object built on the media path: \<open>None\<close> is "no such key", \<open>Some c\<close> is the key with
  the thread's (possibly absent) community id as its value.
\<close>

record contextPermissions =
  cp_communityId :: "string option option"
  cp_reputation :: int
  cp_isModerator :: bool
  cp_isOwner :: bool

text \<open>
  The value \<^verbatim>\<open>addMessage\<close> resolves to: the stored message, spread into a new object
  together with \<^verbatim>\<open>contextPermissions\<close> (\<open>Some\<close>), or the stored message itself
  (\<open>None\<close>).
\<close>

record enrichedMessage =
  stored :: message
  contextPermissions :: "contextPermissions option"

subsection \<open>The draft.js document of a \<^verbatim>\<open>draftjs\<close> message\<close>

text \<open>
  A JSON value, as it occurs in the \<^verbatim>\<open>data\<close> object of a block. The code never looks
  inside one. Numbers are restricted to integers.
\<close>

datatype json =
    JNull
  | JBool bool
  | JNum int
  | JStr string
  | JArr "json list"
  | JObj "(string \<times> json) list"

text \<open>
  A raw draft.js content state: what \<^verbatim>\<open>JSON.parse(message.content.body)\<close> yields for a
  well-formed body. \<^verbatim>\<open>blocks\<close> may be missing (\<open>None\<close>), as the source tests
  \<^verbatim>\<open>blocks && blocks.length > 0\<close>. A JavaScript object is an association list.
\<close>

record block =
  key :: string
  text_block :: string
  type_block :: string
  depth :: nat
  data :: "(string \<times> json) list"

record rawDraft =
  blocks :: "block list option"
  entityMap :: "(string \<times> json) list"

subsection \<open>Collaborators\<close>

text \<open>
  Every imported function the two mutations await, as a function from its arguments to
  either the error its promise rejects with (\<open>Inl\<close>) or the value it resolves to
  (\<open>Inr\<close>). A lookup that may resolve to \<^verbatim>\<open>null\<close> returns an option. Each mutation calls
  each collaborator at most once, so a function of the arguments alone covers every
  collaborator whose answer depends on the state of its store.

  \<open>toPlainText_toState\<close> is the composition \<^verbatim>\<open>toPlainText(toState(parsedMessage))\<close> of
  \<^verbatim>\<open>shared/draft-utils\<close>. \<open>JSON_parse\<close> is \<^verbatim>\<open>JSON.parse\<close> read as a raw content state;
  its \<open>Inl\<close> covers the \<^verbatim>\<open>SyntaxError\<close> of a malformed body and the \<^verbatim>\<open>TypeError\<close> of a
  body that parses to something that has no blocks to read. The field \<open>deleteMessage\<close>
  is the function imported from \<^verbatim>\<open>../models/message\<close>, not the mutation.
\<close>

record env =
  getThread :: "string \<Rightarrow> jsError + thread option"
  storeMessage :: "message \<Rightarrow> string \<Rightarrow> jsError + message"
  getMessage :: "string \<Rightarrow> jsError + message option"
  deleteMessage :: "string \<Rightarrow> string \<Rightarrow> jsError + unit"
  userHasMessagesInThread :: "string \<Rightarrow> string \<Rightarrow> jsError + bool"
  deleteParticipantInThread :: "string \<Rightarrow> string \<Rightarrow> jsError + unit"
  getUserPermissionsInCommunity :: "string option \<Rightarrow> string \<Rightarrow> jsError + permissions option"
  getUserPermissionsInChannel :: "string option \<Rightarrow> string \<Rightarrow> jsError + permissions option"
  uploadImage :: "fileDescriptor option \<Rightarrow> string \<Rightarrow> string \<Rightarrow> jsError + string"
  detectLang :: "string \<Rightarrow> jsError + string"
  toPlainText_toState :: "rawDraft \<Rightarrow> jsError + string"
  JSON_parse :: "string \<Rightarrow> jsError + rawDraft"
  JSON_stringify :: "rawDraft \<Rightarrow> string"
  loaders_thread_load :: "string \<Rightarrow> jsError + thread option"
  loaders_userPermissionsInCommunity_load :: "string \<Rightarrow> string option \<Rightarrow> jsError + permissions option"

text \<open>
  The calls that change something outside the mutation, in the order they are issued.
  An entry records that the call was made, with its arguments; whether the call then
  succeeded is the collaborator's answer in \<open>env\<close>. The first four are issued without
  \<^verbatim>\<open>await\<close> and their results are never read. \<open>ConsoleError\<close> is \<^verbatim>\<open>console.error(err)\<close>.
\<close>

datatype effect =
    SetDirectMessageThreadLastActive string
  | SetUserLastSeenInDirectMessageThread string string
  | CreateParticipantInThread string string
  | CreateParticipantWithoutNotificationsInThread string string
  | ConsoleError jsError
  | UploadImage "fileDescriptor option" string string
  | StoreMessage message string
  | DeleteMessage string string
  | DeleteParticipantInThread string string

section \<open>\<^verbatim>\<open>addMessage\<close>\<close>

text \<open>
  \<^verbatim>\<open>String.prototype.toLowerCase\<close>, on ASCII: the letters A to Z go to a to z, every other
  character stays.
\<close>

definition toLowerCase_char :: "char \<Rightarrow> char" where
  "toLowerCase_char c =
     (case map_of (zip ''ABCDEFGHIJKLMNOPQRSTUVWXYZ'' ''abcdefghijklmnopqrstuvwxyz'') c of
        Some l \<Rightarrow> l
      | None \<Rightarrow> c)"

definition toLowerCase :: "string \<Rightarrow> string" where
  "toLowerCase s = map toLowerCase_char s"

text \<open>Lines 49--67: the calls made for the kind of thread, before the message is classified.\<close>

definition threadSideEffects :: "message \<Rightarrow> user \<Rightarrow> thread option \<Rightarrow> effect list" where
  "threadSideEffects message currentUser thread =
     (if threadType message = ''directMessageThread''
      then [SetDirectMessageThreadLastActive (threadId message),
            SetUserLastSeenInDirectMessageThread (threadId message) (id_user currentUser)]
      else [])
     @ (if threadType message = ''story'' \<and> (case thread of None \<Rightarrow> False | Some t \<Rightarrow> \<not> watercooler t)
        then [CreateParticipantInThread (threadId message) (id_user currentUser)]
        else [])
     @ (if (case thread of None \<Rightarrow> False | Some t \<Rightarrow> watercooler t)
        then [CreateParticipantWithoutNotificationsInThread (threadId message) (id_user currentUser)]
        else [])"

text \<open>
  Lines 78--83: \<^verbatim>\<open>lang\<close> after the \<^verbatim>\<open>try\<close>. An exception of the text extraction or of
  the detector is logged and leaves \<^verbatim>\<open>lang\<close> undefined (\<open>None\<close>).
\<close>

definition guessLang :: "env \<Rightarrow> rawDraft \<Rightarrow> string option \<times> effect list" where
  "guessLang e parsedMessage =
     (case toPlainText_toState e parsedMessage of
        Inl err \<Rightarrow> (None, [ConsoleError err])
      | Inr plain \<Rightarrow>
          (case detectLang e plain of
             Inl err \<Rightarrow> (None, [ConsoleError err])
           | Inr lang \<Rightarrow> (Some lang, [])))"

text \<open>Lines 87--89: \<^verbatim>\<open>parsedMessage.blocks[0].data = { syntax: lang.toLowerCase() }\<close>.\<close>

definition setSyntax :: "rawDraft \<Rightarrow> string \<Rightarrow> rawDraft" where
  "setSyntax parsedMessage lang =
     (case blocks parsedMessage of
        Some (b # bs) \<Rightarrow>
          parsedMessage\<lparr>blocks := Some (b\<lparr>data := [(''syntax'', JStr (toLowerCase lang))]\<rparr> # bs)\<rparr>
      | _ \<Rightarrow> parsedMessage)"

text \<open>
  Lines 71--93: the message handed to the store for a \<^verbatim>\<open>draftjs\<close> message, with what was
  logged; \<open>Inl\<close> when \<^verbatim>\<open>JSON.parse\<close> throws (nothing catches it). \<^verbatim>\<open>lang &&\<close> is false for
  an undefined \<^verbatim>\<open>lang\<close> and for the empty string.
\<close>

definition tagCodeLanguage :: "env \<Rightarrow> message \<Rightarrow> jsError + (message \<times> effect list)" where
  "tagCodeLanguage e message =
     (case JSON_parse e (body (content message)) of
        Inl err \<Rightarrow> Inl err
      | Inr parsedMessage \<Rightarrow>
          (case blocks parsedMessage of
             Some (b # bs) \<Rightarrow>
               if type_block b = ''code-block''
               then (case guessLang e parsedMessage of
                       (Some lang, logged) \<Rightarrow>
                         if lang \<noteq> [] \<and> lang \<noteq> ''Unknown''
                         then Inr (message\<lparr>content := (content message)
                                     \<lparr>body := JSON_stringify e (setSyntax parsedMessage lang)\<rparr>\<rparr>, logged)
                         else Inr (message, logged)
                     | (None, logged) \<Rightarrow> Inr (message, logged))
               else Inr (message, [])
           | _ \<Rightarrow> Inr (message, [])))"

text \<open>
  Lines 96--112: the callback after \<^verbatim>\<open>storeMessage\<close> on the text path. Destructuring
  \<^verbatim>\<open>communityId\<close> out of a \<^verbatim>\<open>null\<close> thread throws.
\<close>

definition enrichText :: "env \<Rightarrow> message \<Rightarrow> jsError + enrichedMessage" where
  "enrichText e message =
     (if threadType message = ''directMessageThread''
      then Inr \<lparr>stored = message, contextPermissions = None\<rparr>
      else (case loaders_thread_load e (threadId message) of
              Inl err \<Rightarrow> Inl err
            | Inr None \<Rightarrow> Inl (TypeError ''communityId'')
            | Inr (Some t) \<Rightarrow>
                (case loaders_userPermissionsInCommunity_load e (senderId message) (communityId t) of
                   Inl err \<Rightarrow> Inl err
                 | Inr perms \<Rightarrow>
                     Inr \<lparr>stored = message,
                          contextPermissions = Some
                            \<lparr>cp_communityId = None,
                             cp_reputation = (case perms of Some p \<Rightarrow> reputation p | None \<Rightarrow> 0),
                             cp_isModerator = (case perms of Some p \<Rightarrow> isModerator p | None \<Rightarrow> False),
                             cp_isOwner = (case perms of Some p \<Rightarrow> isOwner p | None \<Rightarrow> False)\<rparr>\<rparr>)))"

text \<open>Lines 133--150: the same callback on the media path; the view also gets \<^verbatim>\<open>communityId\<close>.\<close>

definition enrichMedia :: "env \<Rightarrow> message \<Rightarrow> jsError + enrichedMessage" where
  "enrichMedia e message =
     (if threadType message = ''directMessageThread''
      then Inr \<lparr>stored = message, contextPermissions = None\<rparr>
      else (case loaders_thread_load e (threadId message) of
              Inl err \<Rightarrow> Inl err
            | Inr None \<Rightarrow> Inl (TypeError ''communityId'')
            | Inr (Some t) \<Rightarrow>
                (case loaders_userPermissionsInCommunity_load e (senderId message) (communityId t) of
                   Inl err \<Rightarrow> Inl err
                 | Inr perms \<Rightarrow>
                     Inr \<lparr>stored = message,
                          contextPermissions = Some
                            \<lparr>cp_communityId = Some (communityId t),
                             cp_reputation = (case perms of Some p \<Rightarrow> reputation p | None \<Rightarrow> 0),
                             cp_isModerator = (case perms of Some p \<Rightarrow> isModerator p | None \<Rightarrow> False),
                             cp_isOwner = (case perms of Some p \<Rightarrow> isOwner p | None \<Rightarrow> False)\<rparr>\<rparr>)))"

text \<open>
  Lines 95--113: \<^verbatim>\<open>storeMessage(...).then(...).catch(err => new UserError(err.message))\<close>.
  The \<^verbatim>\<open>catch\<close> turns a rejection of the store or of the callback into a returned
  \<^verbatim>\<open>UserError\<close>.
\<close>

definition storeText :: "env \<Rightarrow> message \<Rightarrow> user \<Rightarrow> enrichedMessage outcome \<times> effect list" where
  "storeText e message currentUser =
     (case storeMessage e message (id_user currentUser) of
        Inl err \<Rightarrow> (ReturnedError (UserError (message_of err)),
                    [StoreMessage message (id_user currentUser)])
      | Inr m \<Rightarrow>
          (case enrichText e m of
             Inl err \<Rightarrow> (ReturnedError (UserError (message_of err)),
                         [StoreMessage message (id_user currentUser)])
           | Inr r \<Rightarrow> (Returned r, [StoreMessage message (id_user currentUser)])))"

text \<open>
  Lines 117--151: upload, rebuild the message with \<^verbatim>\<open>Object.assign\<close>, store, enrich; one
  \<^verbatim>\<open>catch\<close> at the end of the chain. Reading \<^verbatim>\<open>message.file.name\<close> of a message without a
  file throws inside the first callback.
\<close>

definition storeMedia :: "env \<Rightarrow> message \<Rightarrow> user \<Rightarrow> enrichedMessage outcome \<times> effect list" where
  "storeMedia e message currentUser =
     (case uploadImage e (file_message message) ''threads'' (threadId message) of
        Inl err \<Rightarrow> (ReturnedError (UserError (message_of err)),
                    [UploadImage (file_message message) ''threads'' (threadId message)])
      | Inr url \<Rightarrow>
          (case file_message message of
             None \<Rightarrow> (ReturnedError (UserError (message_of (TypeError ''name''))),
                      [UploadImage (file_message message) ''threads'' (threadId message)])
           | Some f \<Rightarrow>
               (let newMessage = message
                      \<lparr>content := \<lparr>body = url\<rparr>,
                       file_message := Some \<lparr>name = name f, size_file = size_file f,
                                     type_file = type_file f, path = None\<rparr>\<rparr>
                in (case storeMessage e newMessage (id_user currentUser) of
                      Inl err \<Rightarrow> (ReturnedError (UserError (message_of err)),
                                  [UploadImage (file_message message) ''threads'' (threadId message),
                                   StoreMessage newMessage (id_user currentUser)])
                    | Inr m \<Rightarrow>
                        (case enrichMedia e m of
                           Inl err \<Rightarrow> (ReturnedError (UserError (message_of err)),
                                       [UploadImage (file_message message) ''threads'' (threadId message),
                                        StoreMessage newMessage (id_user currentUser)])
                         | Inr r \<Rightarrow> (Returned r,
                                     [UploadImage (file_message message) ''threads'' (threadId message),
                                      StoreMessage newMessage (id_user currentUser)]))))))"

text \<open>Lines 36--155: the mutation. \<^verbatim>\<open>await getThread\<close> is outside every \<^verbatim>\<open>catch\<close>.\<close>

definition Mutation_addMessage ::
  "env \<Rightarrow> message \<Rightarrow> user option \<Rightarrow> enrichedMessage outcome \<times> effect list" where
  "Mutation_addMessage e message usr =
     (case usr of
        None \<Rightarrow> (ReturnedError (UserError ''You must be signed in to send a message.''), [])
      | Some currentUser \<Rightarrow>
          (case getThread e (threadId message) of
             Inl err \<Rightarrow> (Thrown err, [])
           | Inr thread \<Rightarrow>
               (let fx = threadSideEffects message currentUser thread in
                if messageType message = ''text'' \<or> messageType message = ''draftjs''
                then (if messageType message = ''draftjs''
                      then (case tagCodeLanguage e message of
                              Inl err \<Rightarrow> (Thrown err, fx)
                            | Inr (message', logged) \<Rightarrow>
                                (case storeText e message' currentUser of
                                   (r, fx') \<Rightarrow> (r, fx @ logged @ fx')))
                      else (case storeText e message currentUser of
                              (r, fx') \<Rightarrow> (r, fx @ fx')))
                else if messageType message = ''media''
                then (case storeMedia e message currentUser of
                        (r, fx') \<Rightarrow> (r, fx @ fx'))
                else (ReturnedError (UserError ''Unknown message type''), fx))))"

section \<open>\<^verbatim>\<open>deleteMessage\<close>\<close>

text \<open>
  Lines 184--188: \<^verbatim>\<open>||\<close> evaluates from the left and stops at the first true operand, so
  the community record is read only when the channel record does not say owner. Reading
  \<^verbatim>\<open>isOwner\<close> of a \<^verbatim>\<open>null\<close> record throws.
\<close>

definition canModerate :: "permissions option \<Rightarrow> permissions option \<Rightarrow> jsError + bool" where
  "canModerate channelPermissions communityPermissions =
     (case channelPermissions of
        None \<Rightarrow> Inl (TypeError ''isOwner'')
      | Some ch \<Rightarrow>
          if isOwner ch then Inr True
          else (case communityPermissions of
                  None \<Rightarrow> Inl (TypeError ''isOwner'')
                | Some co \<Rightarrow> Inr (isOwner co \<or> isModerator ch \<or> isModerator co)))"

text \<open>
  Lines 169--193, the body of \<^verbatim>\<open>if (message.senderId !== currentUser.id)\<close>: \<open>Inl\<close> is the
  error thrown, \<open>Inr ()\<close> is falling through to the deletion.
\<close>

definition checkModeration :: "env \<Rightarrow> message \<Rightarrow> user \<Rightarrow> jsError + unit" where
  "checkModeration e message currentUser =
     (if threadType message = ''directMessageThread''
      then Inl (UserError ''You can only delete your own messages.'')
      else (case getThread e (threadId message) of
              Inl err \<Rightarrow> Inl err
            | Inr None \<Rightarrow> Inl (TypeError ''communityId'')
            | Inr (Some thread) \<Rightarrow>
                (case getUserPermissionsInCommunity e (communityId thread) (id_user currentUser) of
                   Inl err \<Rightarrow> Inl err
                 | Inr communityPermissions \<Rightarrow>
                     (case getUserPermissionsInChannel e (channelId thread) (id_user currentUser) of
                        Inl err \<Rightarrow> Inl err
                      | Inr channelPermissions \<Rightarrow>
                          (case canModerate channelPermissions communityPermissions of
                             Inl err \<Rightarrow> Inl err
                           | Inr ok \<Rightarrow>
                               if \<not> ok
                               then Inl (UserError
                                 (''You don'' @ [CHR 39] @ ''t have permission to delete this message.''))
                               else Inr ())))))"

text \<open>Lines 197--213: delete, then retract the sender's participation.\<close>

definition deleteAndRetract :: "env \<Rightarrow> user \<Rightarrow> string \<Rightarrow> message \<Rightarrow> bool outcome \<times> effect list" where
  "deleteAndRetract e currentUser mid message =
     (case deleteMessage e (id_user currentUser) mid of
        Inl err \<Rightarrow> (Thrown err, [DeleteMessage (id_user currentUser) mid])
      | Inr _ \<Rightarrow>
          if threadType message = ''directMessageThread''
          then (Returned True, [DeleteMessage (id_user currentUser) mid])
          else (case userHasMessagesInThread e (threadId message) (senderId message) of
                  Inl err \<Rightarrow> (Thrown err, [DeleteMessage (id_user currentUser) mid])
                | Inr hasMoreMessages \<Rightarrow>
                    if hasMoreMessages
                    then (Returned True, [DeleteMessage (id_user currentUser) mid])
                    else (case deleteParticipantInThread e (threadId message) (senderId message) of
                            Inl err \<Rightarrow> (Thrown err,
                                        [DeleteMessage (id_user currentUser) mid,
                                         DeleteParticipantInThread (threadId message) (senderId message)])
                          | Inr _ \<Rightarrow> (Returned True,
                                      [DeleteMessage (id_user currentUser) mid,
                                       DeleteParticipantInThread (threadId message) (senderId message)]))))"

text \<open>Lines 156--214: the mutation. Every error is thrown; nothing is caught.\<close>

definition Mutation_deleteMessage ::
  "env \<Rightarrow> string \<Rightarrow> user option \<Rightarrow> bool outcome \<times> effect list" where
  "Mutation_deleteMessage e mid usr =
     (case usr of
        None \<Rightarrow> (Thrown (UserError ''You must be signed in to delete a message.''), [])
      | Some currentUser \<Rightarrow>
          (case getMessage e mid of
             Inl err \<Rightarrow> (Thrown err, [])
           | Inr None \<Rightarrow> (Thrown (UserError ''This message does not exist.''), [])
           | Inr (Some message) \<Rightarrow>
               (case (if senderId message \<noteq> id_user currentUser
                      then checkModeration e message currentUser
                      else Inr ()) of
                  Inl err \<Rightarrow> (Thrown err, [])
                | Inr _ \<Rightarrow> deleteAndRetract e currentUser mid message)))"

section \<open>Example data\<close>

text \<open>
  A thread, a message, a document and collaborators that all succeed, used to run the
  theorems below on concrete requests.
\<close>

definition exampleThread :: thread where
  "exampleThread = \<lparr>communityId = Some ''c1'', channelId = Some ''ch1'', watercooler = False\<rparr>"

definition exampleMessage :: message where
  "exampleMessage =
     \<lparr>id_message = ''m1'', threadId = ''t1'', threadType = ''story'', senderId = ''alice'',
      messageType = ''text'', content = \<lparr>body = ''hello''\<rparr>, file_message = None\<rparr>"

definition exampleDraft :: rawDraft where
  "exampleDraft =
     \<lparr>blocks = Some
        [\<lparr>key = ''k1'', text_block = ''var x = 1;'', type_block = ''code-block'', depth = 0,
          data = [(''old'', JBool True)]\<rparr>,
         \<lparr>key = ''k2'', text_block = ''bye'', type_block = ''unstyled'', depth = 0, data = []\<rparr>],
      entityMap = []\<rparr>"

definition exampleEnv :: env where
  "exampleEnv =
     \<lparr>getThread = (\<lambda>tid. Inr (if tid = ''t1'' then Some exampleThread else None)),
      storeMessage = (\<lambda>m uid. Inr (m\<lparr>id_message := ''m2'', senderId := uid\<rparr>)),
      getMessage = (\<lambda>mid. Inr (if mid = ''m1'' then Some exampleMessage else None)),
      deleteMessage = (\<lambda>uid mid. Inr ()),
      userHasMessagesInThread = (\<lambda>tid uid. Inr False),
      deleteParticipantInThread = (\<lambda>tid uid. Inr ()),
      getUserPermissionsInCommunity =
        (\<lambda>cid uid. Inr (Some \<lparr>reputation = 0, isModerator = (uid = ''mod''), isOwner = False\<rparr>)),
      getUserPermissionsInChannel =
        (\<lambda>cid uid. Inr (Some \<lparr>reputation = 0, isModerator = False, isOwner = False\<rparr>)),
      uploadImage = (\<lambda>f ns tid. Inr ''https://img/1''),
      detectLang = (\<lambda>plain. Inr ''JavaScript''),
      toPlainText_toState = (\<lambda>d. Inr ''var x = 1;''),
      JSON_parse = (\<lambda>s. if s = ''doc'' then Inr exampleDraft else Inl (SyntaxError ''Unexpected token'')),
      JSON_stringify = (\<lambda>d. case blocks d of
                                Some (b # bs) \<Rightarrow> (case data b of [(k, JStr v)] \<Rightarrow> k @ ''='' @ v | _ \<Rightarrow> ''doc'')
                              | _ \<Rightarrow> ''doc''),
      loaders_thread_load = (\<lambda>tid. Inr (if tid = ''t1'' then Some exampleThread else None)),
      loaders_userPermissionsInCommunity_load = (\<lambda>uid cid. Inr None)\<rparr>"

definition directMessage :: message where
  "directMessage = exampleMessage\<lparr>threadId := ''d1'', threadType := ''directMessageThread''\<rparr>"

definition watercoolerThread :: thread where
  "watercoolerThread = exampleThread\<lparr>watercooler := True\<rparr>"

definition mediaMessage :: message where
  "mediaMessage = exampleMessage
     \<lparr>messageType := ''media'',
      file_message := Some \<lparr>name = ''cat.png'', size_file = 2048, type_file = ''image/png'',
                            path = Some ''/tmp/upload-1''\<rparr>\<rparr>"

definition codeMessage :: message where
  "codeMessage = exampleMessage\<lparr>messageType := ''draftjs'', content := \<lparr>body = ''doc''\<rparr>\<rparr>"




lemmas example_defs = exampleEnv_def exampleMessage_def exampleThread_def exampleDraft_def

section \<open>Unauthenticated requests\<close>

text \<open>
  C4. A submission or a deletion with no current user yields the error "You must be
  signed in ..." (the spec's Unauthenticated) and makes no call that changes a store:
  no message stored or deleted, no participant record created or removed, no timestamp
  set. This holds for every message, every message id and every behaviour of the
  collaborators.
\<close>

theorem unauthenticated_no_mutation:
  "Mutation_addMessage e message None
     = (ReturnedError (UserError ''You must be signed in to send a message.''), [])
   \<and> Mutation_deleteMessage e mid None
     = (Thrown (UserError ''You must be signed in to delete a message.''), [])"
  by (simp add: Mutation_addMessage_def Mutation_deleteMessage_def)

section \<open>Authorization of a deletion\<close>

text \<open>The deletion phase always starts by calling the store's \<^verbatim>\<open>deleteMessage\<close>.\<close>

lemma deleteAndRetract_first:
  "snd (deleteAndRetract e u mid m) \<noteq> [] \<and> hd (snd (deleteAndRetract e u mid m)) = DeleteMessage (id_user u) mid"
  by (simp add: deleteAndRetract_def split: sum.splits)




text \<open>
  C3. When the signed-in requester is the sender of the message, no authorization check
  is applied: the mutation is the deletion phase itself, the store's delete is called,
  and the result is the same under any other thread lookup and any other permission
  lookups (\<open>e'\<close> may differ from \<open>e\<close> in \<open>getThread\<close> and in both permission functions), so
  it depends neither on the thread type nor on the requester's role. When the requester
  is not the sender and the message is in a direct-message thread, the mutation fails
  with "You can only delete your own messages." (the spec's Forbidden) and changes
  nothing, whatever the permission lookups would answer.
\<close>

theorem sender_and_direct_message_rule:
  assumes "getMessage e mid = Inr (Some m)"
  shows "(senderId m = id_user u \<longrightarrow>
            Mutation_deleteMessage e mid (Some u) = deleteAndRetract e u mid m
          \<and> DeleteMessage (id_user u) mid \<in> set (snd (Mutation_deleteMessage e mid (Some u)))
          \<and> (getMessage e' mid = Inr (Some m) \<and> deleteMessage e' = deleteMessage e
               \<and> userHasMessagesInThread e' = userHasMessagesInThread e
               \<and> deleteParticipantInThread e' = deleteParticipantInThread e \<longrightarrow>
              Mutation_deleteMessage e' mid (Some u) = Mutation_deleteMessage e mid (Some u)))
       \<and> (senderId m \<noteq> id_user u \<and> threadType m = ''directMessageThread'' \<longrightarrow>
            Mutation_deleteMessage e mid (Some u) =
              (Thrown (UserError ''You can only delete your own messages.''), []))"
proof -
  have own: "senderId m = id_user u \<Longrightarrow>
      Mutation_deleteMessage e mid (Some u) = deleteAndRetract e u mid m"
    using assms by (simp add: Mutation_deleteMessage_def)
  have own': "senderId m = id_user u \<Longrightarrow> getMessage e' mid = Inr (Some m) \<Longrightarrow>
      Mutation_deleteMessage e' mid (Some u) = deleteAndRetract e' u mid m"
    by (simp add: Mutation_deleteMessage_def)
  have same: "deleteMessage e' = deleteMessage e \<Longrightarrow>
      userHasMessagesInThread e' = userHasMessagesInThread e \<Longrightarrow>
      deleteParticipantInThread e' = deleteParticipantInThread e \<Longrightarrow>
      deleteAndRetract e' u mid m = deleteAndRetract e u mid m"
    by (simp only: deleteAndRetract_def)
  have mem: "DeleteMessage (id_user u) mid \<in> set (snd (deleteAndRetract e u mid m))"
    using deleteAndRetract_first [of e u mid m] by (metis hd_in_set)
  have dm: "senderId m \<noteq> id_user u \<Longrightarrow> threadType m = ''directMessageThread'' \<Longrightarrow>
      Mutation_deleteMessage e mid (Some u) =
        (Thrown (UserError ''You can only delete your own messages.''), [])"
    using assms by (simp add: Mutation_deleteMessage_def checkModeration_def)
  from own own' same mem dm show ?thesis by simp
qed

theorem sender_and_direct_message_rule_witness:
  "Mutation_deleteMessage exampleEnv ''m1'' (Some \<lparr>id_user = ''alice''\<rparr>) =
     (Returned True, [DeleteMessage ''alice'' ''m1'', DeleteParticipantInThread ''t1'' ''alice''])
   \<and> Mutation_deleteMessage (exampleEnv\<lparr>getMessage := (\<lambda>mid. Inr (Some directMessage))\<rparr>) ''m1''
        (Some \<lparr>id_user = ''mod''\<rparr>) =
     (Thrown (UserError ''You can only delete your own messages.''), [])"
proof -
  have a: "Mutation_deleteMessage exampleEnv ''m1'' (Some \<lparr>id_user = ''alice''\<rparr>) =
     (Returned True, [DeleteMessage ''alice'' ''m1'', DeleteParticipantInThread ''t1'' ''alice''])"
    using sender_and_direct_message_rule
      [of exampleEnv "''m1''" exampleMessage "\<lparr>id_user = ''alice''\<rparr>" exampleEnv]
    by (simp add: example_defs deleteAndRetract_def)
  have b: "Mutation_deleteMessage (exampleEnv\<lparr>getMessage := (\<lambda>mid. Inr (Some directMessage))\<rparr>) ''m1''
        (Some \<lparr>id_user = ''mod''\<rparr>) =
     (Thrown (UserError ''You can only delete your own messages.''), [])"
    using sender_and_direct_message_rule
      [of "exampleEnv\<lparr>getMessage := (\<lambda>mid. Inr (Some directMessage))\<rparr>" "''m1''" directMessage
          "\<lparr>id_user = ''mod''\<rparr>"]
    by (simp add: example_defs directMessage_def)
  from a b show ?thesis by simp
qed

section \<open>Retraction of the participant record\<close>

text \<open>
  C8. The deletion went through: the store's delete was called for this request and
  resolved. If the message is in a direct-message thread, nothing else is called and
  the mutation returns \<^verbatim>\<open>true\<close>. Otherwise, if the sender has more messages in the thread,
  the participant record is kept and the mutation returns \<^verbatim>\<open>true\<close>; if the sender has
  none, the sender's participant record for the thread is removed and the mutation
  returns \<^verbatim>\<open>true\<close>. Whenever the mutation returns \<^verbatim>\<open>true\<close> for a message outside a
  direct-message thread, the record was removed if and only if the sender had no
  messages left.
\<close>

theorem participant_retraction:
  assumes "getMessage e mid = Inr (Some m)"
    and "DeleteMessage (id_user u) mid \<in> set (snd (Mutation_deleteMessage e mid (Some u)))"
    and "deleteMessage e (id_user u) mid = Inr ()"
  shows "(threadType m = ''directMessageThread'' \<longrightarrow>
            Mutation_deleteMessage e mid (Some u) = (Returned True, [DeleteMessage (id_user u) mid]))
       \<and> (threadType m \<noteq> ''directMessageThread''
            \<and> userHasMessagesInThread e (threadId m) (senderId m) = Inr True \<longrightarrow>
            Mutation_deleteMessage e mid (Some u) = (Returned True, [DeleteMessage (id_user u) mid]))
       \<and> (threadType m \<noteq> ''directMessageThread''
            \<and> userHasMessagesInThread e (threadId m) (senderId m) = Inr False
            \<and> deleteParticipantInThread e (threadId m) (senderId m) = Inr () \<longrightarrow>
            Mutation_deleteMessage e mid (Some u) =
              (Returned True, [DeleteMessage (id_user u) mid,
                               DeleteParticipantInThread (threadId m) (senderId m)]))
       \<and> (threadType m \<noteq> ''directMessageThread''
            \<and> fst (Mutation_deleteMessage e mid (Some u)) = Returned True \<longrightarrow>
            (DeleteParticipantInThread (threadId m) (senderId m)
                \<in> set (snd (Mutation_deleteMessage e mid (Some u)))
              \<longleftrightarrow> userHasMessagesInThread e (threadId m) (senderId m) = Inr False))"
proof -
  have run: "Mutation_deleteMessage e mid (Some u) = deleteAndRetract e u mid m"
    using assms(1,2) by (auto simp add: Mutation_deleteMessage_def split: if_splits sum.splits)
  show ?thesis
    unfolding run using assms(3)
    by (auto simp add: deleteAndRetract_def split: sum.splits if_splits)
qed

theorem participant_retraction_witness:
  "Mutation_deleteMessage exampleEnv ''m1'' (Some \<lparr>id_user = ''mod''\<rparr>) =
     (Returned True, [DeleteMessage ''mod'' ''m1'', DeleteParticipantInThread ''t1'' ''alice''])
   \<and> Mutation_deleteMessage (exampleEnv\<lparr>userHasMessagesInThread := (\<lambda>tid uid. Inr True)\<rparr>) ''m1''
        (Some \<lparr>id_user = ''mod''\<rparr>) =
     (Returned True, [DeleteMessage ''mod'' ''m1''])
   \<and> Mutation_deleteMessage (exampleEnv\<lparr>getMessage := (\<lambda>mid. Inr (Some directMessage))\<rparr>) ''m1''
        (Some \<lparr>id_user = ''alice''\<rparr>) =
     (Returned True, [DeleteMessage ''alice'' ''m1''])"
proof -
  have pre1: "DeleteMessage ''mod'' ''m1''
      \<in> set (snd (Mutation_deleteMessage exampleEnv ''m1'' (Some \<lparr>id_user = ''mod''\<rparr>)))"
    by (simp add: Mutation_deleteMessage_def checkModeration_def canModerate_def
        deleteAndRetract_def example_defs)
  have a: "Mutation_deleteMessage exampleEnv ''m1'' (Some \<lparr>id_user = ''mod''\<rparr>) =
     (Returned True, [DeleteMessage ''mod'' ''m1'', DeleteParticipantInThread ''t1'' ''alice''])"
    using pre1 participant_retraction [of exampleEnv "''m1''" exampleMessage "\<lparr>id_user = ''mod''\<rparr>"]
    by (simp add: example_defs)
  let ?e2 = "exampleEnv\<lparr>userHasMessagesInThread := (\<lambda>tid uid. Inr True)\<rparr>"
  have pre2: "DeleteMessage ''mod'' ''m1''
      \<in> set (snd (Mutation_deleteMessage ?e2 ''m1'' (Some \<lparr>id_user = ''mod''\<rparr>)))"
    by (simp add: Mutation_deleteMessage_def checkModeration_def canModerate_def
        deleteAndRetract_def example_defs)
  have b: "Mutation_deleteMessage ?e2 ''m1'' (Some \<lparr>id_user = ''mod''\<rparr>) =
     (Returned True, [DeleteMessage ''mod'' ''m1''])"
    using pre2 participant_retraction [of ?e2 "''m1''" exampleMessage "\<lparr>id_user = ''mod''\<rparr>"]
    by (simp add: example_defs)
  let ?e3 = "exampleEnv\<lparr>getMessage := (\<lambda>mid. Inr (Some directMessage))\<rparr>"
  have pre3: "DeleteMessage ''alice'' ''m1''
      \<in> set (snd (Mutation_deleteMessage ?e3 ''m1'' (Some \<lparr>id_user = ''alice''\<rparr>)))"
    by (simp add: Mutation_deleteMessage_def deleteAndRetract_def example_defs directMessage_def)
  have c: "Mutation_deleteMessage ?e3 ''m1'' (Some \<lparr>id_user = ''alice''\<rparr>) =
     (Returned True, [DeleteMessage ''alice'' ''m1''])"
    using pre3 participant_retraction [of ?e3 "''m1''" directMessage "\<lparr>id_user = ''alice''\<rparr>"]
    by (simp add: example_defs directMessage_def)
  from a b c show ?thesis by simp
qed

section \<open>Effects of a submission\<close>

text \<open>
  What a submission calls after the thread side effects: it logs, uploads and stores,
  and nothing else.
\<close>

lemma storeText_effects: "storeText e m u = (r, fx) \<Longrightarrow> fx = [StoreMessage m (id_user u)]"
  by (auto simp add: storeText_def split: sum.splits)

lemma storeMedia_effects:
  "storeMedia e m u = (r, fx) \<Longrightarrow> x \<in> set fx \<Longrightarrow>
     x = UploadImage (file_message m) ''threads'' (threadId m) \<or> (\<exists>m'. x = StoreMessage m' (id_user u))"
  by (auto simp add: storeMedia_def Let_def split: sum.splits option.splits)

lemma tagCodeLanguage_effects:
  "tagCodeLanguage e m = Inr (m', logged) \<Longrightarrow> x \<in> set logged \<Longrightarrow> \<exists>err. x = ConsoleError err"
  by (auto simp add: tagCodeLanguage_def guessLang_def
      split: sum.splits option.splits list.splits if_splits)

lemma addMessage_effects:
  assumes "getThread e (threadId m) = Inr thread"
  shows "\<exists>rest. snd (Mutation_addMessage e m (Some u)) = threadSideEffects m u thread @ rest
           \<and> (\<forall>x\<in>set rest. (\<exists>err. x = ConsoleError err)
                 \<or> x = UploadImage (file_message m) ''threads'' (threadId m)
                 \<or> (\<exists>m'. x = StoreMessage m' (id_user u)))"
  using assms
  by (auto simp add: Mutation_addMessage_def Let_def
      split: sum.splits prod.splits
      dest: storeMedia_effects tagCodeLanguage_effects storeText_effects)

text \<open>
  C5. A signed-in user submits a message and the thread lookup resolves. If the message
  says \<^verbatim>\<open>story\<close> and the thread exists and is not a watercooler, a participant record with
  notifications is created for the sender (\<^verbatim>\<open>createParticipantInThread\<close>). If the thread
  exists and is a watercooler, a participant record without notifications is created
  (\<^verbatim>\<open>createParticipantWithoutNotificationsInThread\<close>). No submission makes both calls,
  for any thread and user ids. If the thread does not exist, neither call is made.
\<close>

theorem participant_registration:
  assumes "getThread e (threadId message) = Inr thread"
  shows "(threadType message = ''story'' \<and> thread = Some t \<and> \<not> watercooler t \<longrightarrow>
            CreateParticipantInThread (threadId message) (id_user u)
              \<in> set (snd (Mutation_addMessage e message (Some u))))
       \<and> (thread = Some t \<and> watercooler t \<longrightarrow>
            CreateParticipantWithoutNotificationsInThread (threadId message) (id_user u)
              \<in> set (snd (Mutation_addMessage e message (Some u))))
       \<and> \<not> (CreateParticipantInThread tid uid \<in> set (snd (Mutation_addMessage e message (Some u)))
            \<and> CreateParticipantWithoutNotificationsInThread tid' uid'
                 \<in> set (snd (Mutation_addMessage e message (Some u))))
       \<and> (thread = None \<longrightarrow>
            CreateParticipantInThread tid uid \<notin> set (snd (Mutation_addMessage e message (Some u)))
          \<and> CreateParticipantWithoutNotificationsInThread tid' uid'
               \<notin> set (snd (Mutation_addMessage e message (Some u))))"
proof -
  obtain rest where fx: "snd (Mutation_addMessage e message (Some u))
        = threadSideEffects message u thread @ rest"
    and rest: "\<forall>x\<in>set rest. (\<exists>err. x = ConsoleError err)
                 \<or> x = UploadImage (file_message message) ''threads'' (threadId message)
                 \<or> (\<exists>m'. x = StoreMessage m' (id_user u))"
    using addMessage_effects [OF assms] by blast
  have r1: "CreateParticipantInThread a b \<notin> set rest" for a b
    using rest by auto
  have r2: "CreateParticipantWithoutNotificationsInThread a b \<notin> set rest" for a b
    using rest by auto
  show ?thesis
    unfolding fx by (auto simp add: threadSideEffects_def r1 r2 split: option.splits if_splits)
qed

theorem participant_registration_witness:
  "snd (Mutation_addMessage exampleEnv exampleMessage (Some \<lparr>id_user = ''bob''\<rparr>))
     = [CreateParticipantInThread ''t1'' ''bob'',
        StoreMessage exampleMessage ''bob'']
   \<and> CreateParticipantWithoutNotificationsInThread ''t1'' ''bob''
       \<in> set (snd (Mutation_addMessage
                  (exampleEnv\<lparr>getThread := (\<lambda>tid. Inr (Some watercoolerThread))\<rparr>)
                  exampleMessage (Some \<lparr>id_user = ''bob''\<rparr>)))
   \<and> CreateParticipantInThread ''t1'' ''bob''
       \<notin> set (snd (Mutation_addMessage
                  (exampleEnv\<lparr>getThread := (\<lambda>tid. Inr (Some watercoolerThread))\<rparr>)
                  exampleMessage (Some \<lparr>id_user = ''bob''\<rparr>)))"
proof -
  have a: "snd (Mutation_addMessage exampleEnv exampleMessage (Some \<lparr>id_user = ''bob''\<rparr>))
     = [CreateParticipantInThread ''t1'' ''bob'', StoreMessage exampleMessage ''bob'']"
    by (simp add: Mutation_addMessage_def threadSideEffects_def storeText_def enrichText_def
        example_defs)
  let ?e = "exampleEnv\<lparr>getThread := (\<lambda>tid. Inr (Some watercoolerThread))\<rparr>"
  have g: "getThread ?e (threadId exampleMessage) = Inr (Some watercoolerThread)"
    by simp
  have tid: "threadId exampleMessage = ''t1''"
    by (simp add: exampleMessage_def)
  have w: "watercooler watercoolerThread"
    by (simp add: watercoolerThread_def)
  from participant_registration [OF g, of watercoolerThread "\<lparr>id_user = ''bob''\<rparr>"
      "''t1''" "''bob''" "''t1''" "''bob''"] w
  have "CreateParticipantWithoutNotificationsInThread ''t1'' ''bob''
       \<in> set (snd (Mutation_addMessage ?e exampleMessage (Some \<lparr>id_user = ''bob''\<rparr>)))
     \<and> CreateParticipantInThread ''t1'' ''bob''
       \<notin> set (snd (Mutation_addMessage ?e exampleMessage (Some \<lparr>id_user = ''bob''\<rparr>)))"
    by (auto simp add: tid)
  with a show ?thesis by simp
qed

section \<open>Media messages\<close>

lemma threadSideEffects_no_store: "StoreMessage m' uid \<notin> set (threadSideEffects m u thread)"
  by (simp add: threadSideEffects_def)

text \<open>
  C7. A signed-in user submits a \<^verbatim>\<open>media\<close> message and the thread lookup resolves. Every
  message handed to the store by this submission is the input message with content
  \<^verbatim>\<open>{body: url}\<close>, where \<open>url\<close> is what the upload service returned, and with a file object
  of exactly \<^verbatim>\<open>name\<close>, \<^verbatim>\<open>size\<close> and \<^verbatim>\<open>type\<close>, equal to those of the input file; it is stored
  under the current user's id. When the message has a file and the upload succeeds, that
  message is indeed handed to the store. When the upload fails, no message is handed to
  the store and the result is a user error with the upload error's text.
\<close>

theorem media_submission:
  assumes "getThread e (threadId message) = Inr thread"
    and "messageType message = ''media''"
  shows "(StoreMessage m' uid \<in> set (snd (Mutation_addMessage e message (Some u))) \<longrightarrow>
            (\<exists>f url. file_message message = Some f
               \<and> uploadImage e (file_message message) ''threads'' (threadId message) = Inr url
               \<and> m' = message\<lparr>content := \<lparr>body = url\<rparr>,
                               file_message := Some \<lparr>name = name f, size_file = size_file f,
                                                     type_file = type_file f, path = None\<rparr>\<rparr>
               \<and> uid = id_user u))
       \<and> (file_message message = Some f
            \<and> uploadImage e (file_message message) ''threads'' (threadId message) = Inr url \<longrightarrow>
            StoreMessage (message\<lparr>content := \<lparr>body = url\<rparr>,
                                   file_message := Some \<lparr>name = name f, size_file = size_file f,
                                                         type_file = type_file f, path = None\<rparr>\<rparr>)
                         (id_user u)
              \<in> set (snd (Mutation_addMessage e message (Some u))))
       \<and> (uploadImage e (file_message message) ''threads'' (threadId message) = Inl err \<longrightarrow>
            StoreMessage m' uid \<notin> set (snd (Mutation_addMessage e message (Some u)))
          \<and> fst (Mutation_addMessage e message (Some u)) = ReturnedError (UserError (message_of err)))"
proof -
  have run: "Mutation_addMessage e message (Some u) =
      (fst (storeMedia e message u), threadSideEffects message u thread @ snd (storeMedia e message u))"
    using assms by (simp add: Mutation_addMessage_def Let_def split: prod.splits)
  show ?thesis
    unfolding run
    by (auto simp add: storeMedia_def Let_def threadSideEffects_no_store
        split: sum.splits option.splits)
qed

theorem media_submission_witness:
  "StoreMessage (mediaMessage\<lparr>content := \<lparr>body = ''https://img/1''\<rparr>,
                   file_message := Some \<lparr>name = ''cat.png'', size_file = 2048,
                                         type_file = ''image/png'', path = None\<rparr>\<rparr>) ''alice''
     \<in> set (snd (Mutation_addMessage exampleEnv mediaMessage (Some \<lparr>id_user = ''alice''\<rparr>)))
   \<and> StoreMessage mediaMessage ''alice''
     \<notin> set (snd (Mutation_addMessage (exampleEnv\<lparr>uploadImage := (\<lambda>f ns tid. Inl (Error ''s3 down''))\<rparr>)
                   mediaMessage (Some \<lparr>id_user = ''alice''\<rparr>)))
   \<and> fst (Mutation_addMessage (exampleEnv\<lparr>uploadImage := (\<lambda>f ns tid. Inl (Error ''s3 down''))\<rparr>)
            mediaMessage (Some \<lparr>id_user = ''alice''\<rparr>))
     = ReturnedError (UserError ''s3 down'')"
proof -
  have a: "StoreMessage (mediaMessage\<lparr>content := \<lparr>body = ''https://img/1''\<rparr>,
                   file_message := Some \<lparr>name = ''cat.png'', size_file = 2048,
                                         type_file = ''image/png'', path = None\<rparr>\<rparr>) ''alice''
     \<in> set (snd (Mutation_addMessage exampleEnv mediaMessage (Some \<lparr>id_user = ''alice''\<rparr>)))"
    using media_submission [where e = exampleEnv and message = mediaMessage
        and thread = "Some exampleThread" and url = "''https://img/1''"
        and u = "\<lparr>id_user = ''alice''\<rparr>"
        and f = "\<lparr>name = ''cat.png'', size_file = 2048, type_file = ''image/png'',
                  path = Some ''/tmp/upload-1''\<rparr>"]
    by (simp add: example_defs mediaMessage_def)
  let ?e = "exampleEnv\<lparr>uploadImage := (\<lambda>f ns tid. Inl (Error ''s3 down''))\<rparr>"
  have b: "StoreMessage mediaMessage ''alice''
       \<notin> set (snd (Mutation_addMessage ?e mediaMessage (Some \<lparr>id_user = ''alice''\<rparr>)))
     \<and> fst (Mutation_addMessage ?e mediaMessage (Some \<lparr>id_user = ''alice''\<rparr>))
       = ReturnedError (UserError ''s3 down'')"
    using media_submission [where e = ?e and message = mediaMessage
        and thread = "Some exampleThread" and err = "Error ''s3 down''"
        and m' = mediaMessage and uid = "''alice''" and u = "\<lparr>id_user = ''alice''\<rparr>"]
    by (simp add: example_defs mediaMessage_def)
  from a b show ?thesis by simp
qed

section \<open>Language tagging of code messages\<close>


lemma addMessage_draftjs:
  assumes "getThread e (threadId message) = Inr thread"
    and "messageType message = ''draftjs''"
    and "tagCodeLanguage e message = Inr (m', logged)"
  shows "Mutation_addMessage e message (Some u) =
           (fst (storeText e m' u),
            threadSideEffects message u thread @ logged @ [StoreMessage m' (id_user u)])"
  using assms
  by (auto simp add: Mutation_addMessage_def Let_def split: prod.splits
      dest: storeText_effects)

lemma tagCodeLanguage_tagged:
  assumes "JSON_parse e (body (content message)) = Inr d"
    and "blocks d = Some (b # bs)"
    and "type_block b = ''code-block''"
    and "toPlainText_toState e d = Inr plain"
    and "detectLang e plain = Inr L"
    and "L \<noteq> []" and "L \<noteq> ''Unknown''"
  shows "tagCodeLanguage e message =
           Inr (message\<lparr>content := \<lparr>body = JSON_stringify e
                  (d\<lparr>blocks := Some (b\<lparr>data := [(''syntax'', JStr (toLowerCase L))]\<rparr> # bs)\<rparr>)\<rparr>\<rparr>, [])"
  using assms
  by (simp add: tagCodeLanguage_def guessLang_def setSyntax_def)




text \<open>
  C10. Under the same conditions, with a detected language name \<open>L\<close> (non-empty and not
  "Unknown"): the document that is serialized and stored is the parsed document with
  the first block's \<open>data\<close> set to the one-pair object \<open>{syntax: toLowerCase L}\<close>. The
  pairs that \<open>data b\<close> held before do not occur in it (they are replaced, not merged);
  the other fields of the first block, the other blocks \<open>bs\<close> and the entity map are the
  parsed ones.
\<close>

theorem syntax_replaces_block_data:
  assumes "getThread e (threadId message) = Inr thread"
    and "messageType message = ''draftjs''"
    and "JSON_parse e (body (content message)) = Inr d"
    and "blocks d = Some (b # bs)"
    and "type_block b = ''code-block''"
    and "toPlainText_toState e d = Inr plain"
    and "detectLang e plain = Inr L"
    and "L \<noteq> []" and "L \<noteq> ''Unknown''"
  shows "snd (Mutation_addMessage e message (Some u)) =
           threadSideEffects message u thread
           @ [StoreMessage
                (message\<lparr>content := \<lparr>body = JSON_stringify e
                   (d\<lparr>blocks := Some (b\<lparr>data := [(''syntax'', JStr (toLowerCase L))]\<rparr> # bs)\<rparr>)\<rparr>\<rparr>)
                (id_user u)]"
  using addMessage_draftjs [OF assms(1,2) tagCodeLanguage_tagged [OF assms(3-9)]]
  by simp

theorem syntax_replaces_block_data_witness:
  "snd (Mutation_addMessage exampleEnv codeMessage (Some \<lparr>id_user = ''alice''\<rparr>)) =
     [CreateParticipantInThread ''t1'' ''alice'',
      StoreMessage (codeMessage\<lparr>content := \<lparr>body = ''syntax=javascript''\<rparr>\<rparr>) ''alice'']"
proof -
  have lower: "toLowerCase ''JavaScript'' = ''javascript''"
    by (simp add: toLowerCase_def toLowerCase_char_def)
  have fx: "threadSideEffects codeMessage \<lparr>id_user = ''alice''\<rparr> (Some exampleThread)
      = [CreateParticipantInThread ''t1'' ''alice'']"
    by (simp add: threadSideEffects_def codeMessage_def example_defs)
  show ?thesis
    using syntax_replaces_block_data [where e = exampleEnv and message = codeMessage
        and thread = "Some exampleThread" and d = exampleDraft
        and b = "\<lparr>key = ''k1'', text_block = ''var x = 1;'', type_block = ''code-block'',
                  depth = 0, data = [(''old'', JBool True)]\<rparr>"
        and bs = "[\<lparr>key = ''k2'', text_block = ''bye'', type_block = ''unstyled'', depth = 0,
                    data = []\<rparr>]"
        and plain = "''var x = 1;''" and L = "''JavaScript''"
        and u = "\<lparr>id_user = ''alice''\<rparr>"]
    unfolding lower fx
    by (simp add: codeMessage_def example_defs)
qed

section \<open>The result and the effects of a submission, by message type\<close>



lemma addMessage_fst:
  "getThread e (threadId message) = Inr thread \<Longrightarrow>
     fst (Mutation_addMessage e message (Some u)) =
       (if messageType message = ''text'' then fst (storeText e message u)
        else if messageType message = ''draftjs''
        then (case tagCodeLanguage e message of
                Inl err \<Rightarrow> Thrown err
              | Inr (m', logged) \<Rightarrow> fst (storeText e m' u))
        else if messageType message = ''media'' then fst (storeMedia e message u)
        else ReturnedError (UserError ''Unknown message type''))"
  by (simp add: Mutation_addMessage_def Let_def split: prod.splits sum.splits)

lemma addMessage_snd:
  "getThread e (threadId message) = Inr thread \<Longrightarrow>
     snd (Mutation_addMessage e message (Some u)) =
       threadSideEffects message u thread @
       (if messageType message = ''text'' then [StoreMessage message (id_user u)]
        else if messageType message = ''draftjs''
        then (case tagCodeLanguage e message of
                Inl err \<Rightarrow> []
              | Inr (m', logged) \<Rightarrow> logged @ [StoreMessage m' (id_user u)])
        else if messageType message = ''media'' then snd (storeMedia e message u)
        else [])"
  by (auto simp add: Mutation_addMessage_def Let_def split: prod.splits sum.splits
      dest: storeText_effects)

text \<open>
  Both promise chains end the same way once the store has been called: a rejection of
  the store or of the enrichment becomes a returned \<^verbatim>\<open>UserError\<close>.
\<close>

lemma storeText_after_store:
  "fst (storeText e m u) =
     (case storeMessage e m (id_user u) of
        Inl err \<Rightarrow> ReturnedError (UserError (message_of err))
      | Inr sm \<Rightarrow>
          (case enrichText e sm of
             Inl err \<Rightarrow> ReturnedError (UserError (message_of err))
           | Inr r \<Rightarrow> Returned r))"
  by (simp add: storeText_def split: sum.splits)

lemma storeMedia_after_store:
  "StoreMessage m' uid \<in> set (snd (storeMedia e m u)) \<Longrightarrow>
     fst (storeMedia e m u) =
       (case storeMessage e m' uid of
          Inl err \<Rightarrow> ReturnedError (UserError (message_of err))
        | Inr sm \<Rightarrow>
            (case enrichMedia e sm of
               Inl err \<Rightarrow> ReturnedError (UserError (message_of err))
             | Inr r \<Rightarrow> Returned r))"
  by (auto simp add: storeMedia_def Let_def split: sum.splits option.splits)

lemma addMessage_after_store:
  assumes "StoreMessage m' uid \<in> set (snd (Mutation_addMessage e message usr))"
  shows "fst (Mutation_addMessage e message usr) =
           (case storeMessage e m' uid of
              Inl err \<Rightarrow> ReturnedError (UserError (message_of err))
            | Inr sm \<Rightarrow>
                (case (if messageType message = ''media'' then enrichMedia e sm
                       else enrichText e sm) of
                   Inl err \<Rightarrow> ReturnedError (UserError (message_of err))
                 | Inr r \<Rightarrow> Returned r))"
proof (cases usr)
  case None
  with assms show ?thesis by (simp add: Mutation_addMessage_def)
next
  case (Some u)
  show ?thesis
  proof (cases "getThread e (threadId message)")
    case (Inl err)
    with Some assms show ?thesis by (simp add: Mutation_addMessage_def)
  next
    case (Inr thread)
    from assms have mem: "StoreMessage m' uid \<in> set
       (if messageType message = ''text'' then [StoreMessage message (id_user u)]
        else if messageType message = ''draftjs''
        then (case tagCodeLanguage e message of
                Inl err \<Rightarrow> []
              | Inr (m', logged) \<Rightarrow> logged @ [StoreMessage m' (id_user u)])
        else if messageType message = ''media'' then snd (storeMedia e message u)
        else [])"
      unfolding Some addMessage_snd [OF Inr] by (simp add: threadSideEffects_no_store)
    show ?thesis
      unfolding Some addMessage_fst [OF Inr]
      using mem
      by (auto split: if_splits sum.splits prod.splits
          simp add: storeText_after_store storeMedia_after_store
          dest: tagCodeLanguage_effects)
  qed
qed

section \<open>The enriched response\<close>

text \<open>What a successful enrichment callback returned, read off its two definitions.\<close>

lemma enrichText_Inr:
  assumes "enrichText e sm = Inr r"
  shows "stored r = sm
       \<and> (threadType sm = ''directMessageThread'' \<longrightarrow> contextPermissions r = None)
       \<and> (threadType sm \<noteq> ''directMessageThread'' \<longrightarrow>
            (\<exists>t perms cp. loaders_thread_load e (threadId sm) = Inr (Some t)
               \<and> loaders_userPermissionsInCommunity_load e (senderId sm) (communityId t) = Inr perms
               \<and> contextPermissions r = Some cp
               \<and> cp_communityId cp = None
               \<and> cp_reputation cp = (case perms of Some p \<Rightarrow> reputation p | None \<Rightarrow> 0)
               \<and> cp_isModerator cp = (case perms of Some p \<Rightarrow> isModerator p | None \<Rightarrow> False)
               \<and> cp_isOwner cp = (case perms of Some p \<Rightarrow> isOwner p | None \<Rightarrow> False)))"
  using assms
  by (auto simp add: enrichText_def split: if_splits sum.splits option.splits)

lemma enrichMedia_Inr:
  assumes "enrichMedia e sm = Inr r"
  shows "stored r = sm
       \<and> (threadType sm = ''directMessageThread'' \<longrightarrow> contextPermissions r = None)
       \<and> (threadType sm \<noteq> ''directMessageThread'' \<longrightarrow>
            (\<exists>t perms cp. loaders_thread_load e (threadId sm) = Inr (Some t)
               \<and> loaders_userPermissionsInCommunity_load e (senderId sm) (communityId t) = Inr perms
               \<and> contextPermissions r = Some cp
               \<and> cp_communityId cp = Some (communityId t)
               \<and> cp_reputation cp = (case perms of Some p \<Rightarrow> reputation p | None \<Rightarrow> 0)
               \<and> cp_isModerator cp = (case perms of Some p \<Rightarrow> isModerator p | None \<Rightarrow> False)
               \<and> cp_isOwner cp = (case perms of Some p \<Rightarrow> isOwner p | None \<Rightarrow> False)))"
  using assms
  by (auto simp add: enrichMedia_def split: if_splits sum.splits option.splits)

text \<open>
  C9. A submission handed a message to the store and the store resolved to the stored
  message \<open>sm\<close>. If \<open>sm\<close> is in a direct-message thread, the mutation returns \<open>sm\<close> itself,
  with no \<^verbatim>\<open>contextPermissions\<close>. Otherwise, once the thread is loaded: when the sender has
  no permission record in the thread's community, the mutation returns \<open>sm\<close> with
  \<^verbatim>\<open>contextPermissions\<close> of reputation 0, isModerator false and isOwner false; when there
  is a record, with the record's values. The view has the key \<^verbatim>\<open>communityId\<close>, holding the
  thread's community id, exactly for \<^verbatim>\<open>media\<close> messages. Whatever message the mutation
  returns is the stored one, without \<^verbatim>\<open>contextPermissions\<close> in a direct-message thread
  and with it in any other thread.
\<close>

theorem response_enrichment:
  assumes "StoreMessage m' uid \<in> set (snd (Mutation_addMessage e message usr))"
    and "storeMessage e m' uid = Inr sm"
  shows "(threadType sm = ''directMessageThread'' \<longrightarrow>
            fst (Mutation_addMessage e message usr)
              = Returned \<lparr>stored = sm, contextPermissions = None\<rparr>)
       \<and> (threadType sm \<noteq> ''directMessageThread''
            \<and> loaders_thread_load e (threadId sm) = Inr (Some t)
            \<and> loaders_userPermissionsInCommunity_load e (senderId sm) (communityId t) = Inr None \<longrightarrow>
            fst (Mutation_addMessage e message usr)
              = Returned \<lparr>stored = sm,
                           contextPermissions = Some
                             \<lparr>cp_communityId = (if messageType message = ''media''
                                                 then Some (communityId t) else None),
                              cp_reputation = 0, cp_isModerator = False, cp_isOwner = False\<rparr>\<rparr>)
       \<and> (threadType sm \<noteq> ''directMessageThread''
            \<and> loaders_thread_load e (threadId sm) = Inr (Some t)
            \<and> loaders_userPermissionsInCommunity_load e (senderId sm) (communityId t)
                = Inr (Some p) \<longrightarrow>
            fst (Mutation_addMessage e message usr)
              = Returned \<lparr>stored = sm,
                           contextPermissions = Some
                             \<lparr>cp_communityId = (if messageType message = ''media''
                                                 then Some (communityId t) else None),
                              cp_reputation = reputation p, cp_isModerator = isModerator p,
                              cp_isOwner = isOwner p\<rparr>\<rparr>)
       \<and> (fst (Mutation_addMessage e message usr) = Returned r \<longrightarrow>
            stored r = sm
          \<and> (threadType sm = ''directMessageThread'' \<longrightarrow> contextPermissions r = None)
          \<and> (threadType sm \<noteq> ''directMessageThread'' \<longrightarrow>
               (\<exists>cp. contextPermissions r = Some cp
                  \<and> (messageType message = ''media'' \<longrightarrow> cp_communityId cp \<noteq> None)
                  \<and> (messageType message \<noteq> ''media'' \<longrightarrow> cp_communityId cp = None))))"
proof -
  have run: "fst (Mutation_addMessage e message usr) =
      (case (if messageType message = ''media'' then enrichMedia e sm else enrichText e sm) of
         Inl err \<Rightarrow> ReturnedError (UserError (message_of err))
       | Inr r \<Rightarrow> Returned r)"
    using addMessage_after_store [OF assms(1)] assms(2) by simp
  have dm: "threadType sm = ''directMessageThread'' \<longrightarrow>
            fst (Mutation_addMessage e message usr)
              = Returned \<lparr>stored = sm, contextPermissions = None\<rparr>"
    unfolding run by (simp add: enrichText_def enrichMedia_def)
  have none: "threadType sm \<noteq> ''directMessageThread''
            \<and> loaders_thread_load e (threadId sm) = Inr (Some t)
            \<and> loaders_userPermissionsInCommunity_load e (senderId sm) (communityId t) = Inr None \<longrightarrow>
            fst (Mutation_addMessage e message usr)
              = Returned \<lparr>stored = sm,
                           contextPermissions = Some
                             \<lparr>cp_communityId = (if messageType message = ''media''
                                                 then Some (communityId t) else None),
                              cp_reputation = 0, cp_isModerator = False, cp_isOwner = False\<rparr>\<rparr>"
    unfolding run by (simp add: enrichText_def enrichMedia_def)
  have some: "threadType sm \<noteq> ''directMessageThread''
            \<and> loaders_thread_load e (threadId sm) = Inr (Some t)
            \<and> loaders_userPermissionsInCommunity_load e (senderId sm) (communityId t)
                = Inr (Some p) \<longrightarrow>
            fst (Mutation_addMessage e message usr)
              = Returned \<lparr>stored = sm,
                           contextPermissions = Some
                             \<lparr>cp_communityId = (if messageType message = ''media''
                                                 then Some (communityId t) else None),
                              cp_reputation = reputation p, cp_isModerator = isModerator p,
                              cp_isOwner = isOwner p\<rparr>\<rparr>"
    unfolding run by (simp add: enrichText_def enrichMedia_def)
  have ret: "fst (Mutation_addMessage e message usr) = Returned r \<longrightarrow>
            stored r = sm
          \<and> (threadType sm = ''directMessageThread'' \<longrightarrow> contextPermissions r = None)
          \<and> (threadType sm \<noteq> ''directMessageThread'' \<longrightarrow>
               (\<exists>cp. contextPermissions r = Some cp
                  \<and> (messageType message = ''media'' \<longrightarrow> cp_communityId cp \<noteq> None)
                  \<and> (messageType message \<noteq> ''media'' \<longrightarrow> cp_communityId cp = None)))"
    unfolding run
    by (auto split: sum.splits if_splits dest!: enrichText_Inr enrichMedia_Inr)
  show ?thesis
    by (intro conjI) (rule dm none some ret)+
qed

theorem response_enrichment_witness:
  "fst (Mutation_addMessage exampleEnv exampleMessage (Some \<lparr>id_user = ''bob''\<rparr>)) =
     Returned \<lparr>stored = exampleMessage\<lparr>id_message := ''m2'', senderId := ''bob''\<rparr>,
               contextPermissions = Some \<lparr>cp_communityId = None, cp_reputation = 0,
                                          cp_isModerator = False, cp_isOwner = False\<rparr>\<rparr>
   \<and> fst (Mutation_addMessage exampleEnv directMessage (Some \<lparr>id_user = ''bob''\<rparr>)) =
     Returned \<lparr>stored = directMessage\<lparr>id_message := ''m2'', senderId := ''bob''\<rparr>,
               contextPermissions = None\<rparr>
   \<and> fst (Mutation_addMessage exampleEnv mediaMessage (Some \<lparr>id_user = ''bob''\<rparr>)) =
     Returned \<lparr>stored = mediaMessage
                  \<lparr>id_message := ''m2'', senderId := ''bob'', content := \<lparr>body = ''https://img/1''\<rparr>,
                   file_message := Some \<lparr>name = ''cat.png'', size_file = 2048,
                                         type_file = ''image/png'', path = None\<rparr>\<rparr>,
               contextPermissions = Some \<lparr>cp_communityId = Some (Some ''c1''), cp_reputation = 0,
                                          cp_isModerator = False, cp_isOwner = False\<rparr>\<rparr>"
proof -
  have s1: "StoreMessage exampleMessage ''bob''
      \<in> set (snd (Mutation_addMessage exampleEnv exampleMessage (Some \<lparr>id_user = ''bob''\<rparr>)))"
    by (simp add: Mutation_addMessage_def threadSideEffects_def storeText_def enrichText_def
        example_defs)
  have a: "fst (Mutation_addMessage exampleEnv exampleMessage (Some \<lparr>id_user = ''bob''\<rparr>)) =
     Returned \<lparr>stored = exampleMessage\<lparr>id_message := ''m2'', senderId := ''bob''\<rparr>,
               contextPermissions = Some \<lparr>cp_communityId = None, cp_reputation = 0,
                                          cp_isModerator = False, cp_isOwner = False\<rparr>\<rparr>"
    using response_enrichment [OF s1, where t = exampleThread
        and sm = "exampleMessage\<lparr>id_message := ''m2'', senderId := ''bob''\<rparr>"]
    by (simp add: example_defs)
  have s2: "StoreMessage directMessage ''bob''
      \<in> set (snd (Mutation_addMessage exampleEnv directMessage (Some \<lparr>id_user = ''bob''\<rparr>)))"
    by (simp add: Mutation_addMessage_def threadSideEffects_def storeText_def enrichText_def
        example_defs directMessage_def)
  have b: "fst (Mutation_addMessage exampleEnv directMessage (Some \<lparr>id_user = ''bob''\<rparr>)) =
     Returned \<lparr>stored = directMessage\<lparr>id_message := ''m2'', senderId := ''bob''\<rparr>,
               contextPermissions = None\<rparr>"
    using response_enrichment [OF s2,
        where sm = "directMessage\<lparr>id_message := ''m2'', senderId := ''bob''\<rparr>"]
    by (simp add: example_defs directMessage_def)
  let ?stored = "mediaMessage\<lparr>content := \<lparr>body = ''https://img/1''\<rparr>,
                   file_message := Some \<lparr>name = ''cat.png'', size_file = 2048,
                                         type_file = ''image/png'', path = None\<rparr>\<rparr>"
  have s3: "StoreMessage ?stored ''bob''
      \<in> set (snd (Mutation_addMessage exampleEnv mediaMessage (Some \<lparr>id_user = ''bob''\<rparr>)))"
    by (simp add: Mutation_addMessage_def threadSideEffects_def storeMedia_def enrichMedia_def
        example_defs mediaMessage_def)
  have c: "fst (Mutation_addMessage exampleEnv mediaMessage (Some \<lparr>id_user = ''bob''\<rparr>)) =
     Returned \<lparr>stored = mediaMessage
                  \<lparr>id_message := ''m2'', senderId := ''bob'', content := \<lparr>body = ''https://img/1''\<rparr>,
                   file_message := Some \<lparr>name = ''cat.png'', size_file = 2048,
                                         type_file = ''image/png'', path = None\<rparr>\<rparr>,
               contextPermissions = Some \<lparr>cp_communityId = Some (Some ''c1''), cp_reputation = 0,
                                          cp_isModerator = False, cp_isOwner = False\<rparr>\<rparr>"
    using response_enrichment [OF s3, where t = exampleThread
        and sm = "?stored\<lparr>id_message := ''m2'', senderId := ''bob''\<rparr>"]
    by (simp add: example_defs mediaMessage_def)
  from a b c show ?thesis by simp
qed

section \<open>How errors reach the caller\<close>







end
